theory Spec2Isabelle
  imports Complex_Main
begin

section \<open>Data model\<close>

text \<open>
  The rows of the tables the game reads and writes. JavaScript numbers that only ever hold
  integers are modelled as \<open>int\<close>. A player row (\<open>interface Player\<close>; \<open>id\<close> is
  \<open>p_id\<close> here): the fields the turn engine reads or writes, and the two keys
  \<open>game_id\<close> and \<open>user_id\<close> by which the board loads it.
\<close>

record Player =
  p_id :: string
  game_id :: string
  user_id :: string
  player_number :: int
  character_name :: string
  position :: int
  health :: int
  gold :: int

text \<open>A game row (\<open>interface Game\<close>; \<open>id\<close> is \<open>g_id\<close> here).\<close>

record Game =
  g_id :: string
  current_turn :: int
  current_player :: int

text \<open>A row of \<open>board_tiles\<close>; \<open>tile_type\<close> is a string, as the \<open>switch\<close> reads it.\<close>

record Tile =
  tile_pos :: int
  tile_type :: string

text \<open>
  The chat messages the engine creates, one constructor per call of
  \<open>chat_messages.create\<close>, each with the data its content is built from.
\<close>

datatype Message =
    Movement string "int list" int int
  | PassedPortal string
  | TileEncounter string int Tile
  | HealthChanged string int
  | GoldChanged string int
  | TurnEnded int

text \<open>The database the component talks to through \<open>blink.db\<close>.\<close>

record Store =
  db_games :: "Game list"
  db_players :: "Player list"
  db_board_tiles :: "Tile list"
  db_chat_messages :: "Message list"

text \<open>
  \<open>players.update(id, fields)\<close> and \<open>games.update(id, fields)\<close>: the row with
  that id gets the fields, every other row is left alone. \<open>chat_messages.create\<close>
  appends a row.
\<close>

definition blink_players_update :: "string \<Rightarrow> (Player \<Rightarrow> Player) \<Rightarrow> Store \<Rightarrow> Store" where
  "blink_players_update i f s =
     s\<lparr>db_players := map (\<lambda>p. if p_id p = i then f p else p) (db_players s)\<rparr>"

definition blink_games_update :: "string \<Rightarrow> (Game \<Rightarrow> Game) \<Rightarrow> Store \<Rightarrow> Store" where
  "blink_games_update i f s =
     s\<lparr>db_games := map (\<lambda>g. if g_id g = i then f g else g) (db_games s)\<rparr>"

definition blink_chat_messages_create :: "Message \<Rightarrow> Store \<Rightarrow> Store" where
  "blink_chat_messages_create m s = s\<lparr>db_chat_messages := db_chat_messages s @ [m]\<rparr>"

text \<open>The row of a player, by id.\<close>

definition player_row :: "Store \<Rightarrow> string \<Rightarrow> Player option" where
  "player_row s i = find (\<lambda>p. p_id p = i) (db_players s)"

text \<open>The row of a game, by id.\<close>

definition game_row :: "Store \<Rightarrow> string \<Rightarrow> Game option" where
  "game_row s i = find (\<lambda>g. g_id g = i) (db_games s)"

text \<open>
  Two stores hold the same player and game state: the same player rows (position, health,
  gold) and the same game rows (\<open>current_player\<close>, \<open>current_turn\<close>).
\<close>

definition same_state :: "Store \<Rightarrow> Store \<Rightarrow> bool" where
  "same_state s s' = (db_players s' = db_players s \<and> db_games s' = db_games s)"

section \<open>What the environment decides\<close>

text \<open>
  One invocation of a handler consumes results of \<open>Math.random()\<close> (the \<open>k\<close>-th
  call of \<open>rollDice\<close>'s loop reads \<open>math_random k\<close>, a number in \<open>[0, 1)\<close>) and
  awaits external calls, any of which may reject: \<open>fails_at = Some k\<close> says that the
  \<open>k\<close>-th awaited call of this invocation (counted from 0) throws, \<open>None\<close> that
  all of them succeed.
\<close>

record Env =
  math_random :: "nat \<Rightarrow> real"
  fails_at :: "nat option"

definition valid_random :: "(nat \<Rightarrow> real) \<Rightarrow> bool" where
  "valid_random rnd = (\<forall>k. 0 \<le> rnd k \<and> rnd k < 1)"

text \<open>
  The awaited calls of a handler, run in order from call number \<open>k\<close>. A call that
  throws ends the \<open>try\<close> block: the calls before it have happened, the ones after
  it have not. The result says whether the block reached its end.
\<close>

fun run_calls :: "nat option \<Rightarrow> nat \<Rightarrow> (Store \<Rightarrow> Store) list \<Rightarrow> Store \<Rightarrow> bool \<times> Store" where
  "run_calls fa k [] s = (True, s)"
| "run_calls fa k (c # cs) s =
     (if fa = Some k then (False, s) else run_calls fa (Suc k) cs (c s))"

text \<open>JavaScript's \<open>%\<close> on integers: the sign of the result is the dividend's.\<close>

definition rem_js :: "int \<Rightarrow> int \<Rightarrow> int" where
  "rem_js a b = sgn a * (\<bar>a\<bar> mod \<bar>b\<bar>)"

section \<open>TurnControls\<close>

text \<open>The props of the component and its local state (the four \<open>useState\<close> cells).\<close>

record Props =
  game :: Game
  currentPlayer :: Player
  players :: "Player list"

record Controls =
  rolling :: bool
  lastRoll :: "int list"
  actionPhase :: bool
  processing :: bool

definition initial_controls :: Controls where
  "initial_controls = \<lparr>rolling = False, lastRoll = [], actionPhase = False, processing = False\<rparr>"

text \<open>
  How a handler ends: it returned at its guard, it reached the end of its \<open>try\<close>
  block, it reported a missing tile, or it landed in its \<open>catch\<close> block.
\<close>

datatype Outcome = Ignored | Done | TileNotFound | Failed

definition isMyTurn :: "Props \<Rightarrow> bool" where
  "isMyTurn pr = (player_number (currentPlayer pr) = current_player (game pr))"

text \<open>
  \<open>rollDice\<close>: \<open>count\<close> times \<open>Math.floor(Math.random() * 6) + 1\<close>. The product
  is taken over the reals; the code's product of doubles may round up to the next whole
  number just below a multiple of \<open>1 / 6\<close> and then shows the next face. Either way a
  die shows a face from 1 to 6.
\<close>

definition rollDice :: "(nat \<Rightarrow> real) \<Rightarrow> nat \<Rightarrow> int list" where
  "rollDice rnd count = map (\<lambda>i. \<lfloor>rnd i * 6\<rfloor> + 1) [0..<count]"

text \<open>
  \<open>rollMovement\<close>. The awaited calls are: the position update, the movement message
  and, when the player passed the start, the gold update and its message.
\<close>

definition rollMovement :: "Env \<Rightarrow> Props \<Rightarrow> Controls \<Rightarrow> Store \<Rightarrow> Outcome \<times> Controls \<times> Store" where
  "rollMovement env pr c s =
     (if \<not> isMyTurn pr \<or> rolling c then (Ignored, c, s)
      else
        let cp = currentPlayer pr;
            diceRolls = rollDice (math_random env) 2;
            totalMovement = foldl (+) 0 diceRolls;
            c1 = c\<lparr>lastRoll := diceRolls\<rparr>;
            newPosition = rem_js (position cp + totalMovement) 100;
            calls =
              [blink_players_update (p_id cp) (\<lambda>p. p\<lparr>position := newPosition\<rparr>),
               blink_chat_messages_create (Movement (p_id cp) diceRolls totalMovement newPosition)]
              @ (if position cp + totalMovement \<ge> 100
                 then [blink_players_update (p_id cp) (\<lambda>p. p\<lparr>gold := gold cp + 200\<rparr>),
                       blink_chat_messages_create (PassedPortal (p_id cp))]
                 else []);
            r = run_calls (fails_at env) 0 calls s
        in if fst r then (Done, c1\<lparr>actionPhase := True, rolling := False\<rparr>, snd r)
           else (Failed, c1\<lparr>rolling := False\<rparr>, snd r))"

text \<open>
  The \<open>switch\<close> of \<open>applyTileEffects\<close>: the pair \<open>(healthChange, goldChange)\<close>
  for a tile type and a roll. A type with no \<open>case\<close> (\<open>start\<close> among them) changes
  nothing.
\<close>

definition tileChanges :: "string \<Rightarrow> int \<Rightarrow> int \<times> int" where
  "tileChanges ty roll =
     (if ty = ''monster'' then
        (if roll \<ge> 15 then (0, 50 + roll * 5)
         else if roll \<le> 8 then (- 15, 0)
         else (0, 0))
      else if ty = ''treasure'' then (0, 25 + roll * 3)
      else if ty = ''event'' then
        (if roll \<ge> 12 then (0, 30)
         else if roll \<le> 6 then (0, - 20)
         else (0, 0))
      else if ty = ''property'' then (0, 0)
      else (0, 0))"

text \<open>
  \<open>applyTileEffects\<close>: the awaited calls it makes. When either change is nonzero it
  writes the clamped health and gold, both computed from the props, then one message per
  nonzero change.
\<close>

definition applyTileEffects :: "Props \<Rightarrow> Tile \<Rightarrow> int \<Rightarrow> (Store \<Rightarrow> Store) list" where
  "applyTileEffects pr tile roll =
     (let cp = currentPlayer pr;
          healthChange = fst (tileChanges (tile_type tile) roll);
          goldChange = snd (tileChanges (tile_type tile) roll)
      in if healthChange \<noteq> 0 \<or> goldChange \<noteq> 0 then
           let newHealth = max 0 (min 100 (health cp + healthChange));
               newGold = max 0 (gold cp + goldChange)
           in [blink_players_update (p_id cp) (\<lambda>p. p\<lparr>health := newHealth, gold := newGold\<rparr>)]
              @ (if healthChange \<noteq> 0 then [blink_chat_messages_create (HealthChanged (p_id cp) healthChange)] else [])
              @ (if goldChange \<noteq> 0 then [blink_chat_messages_create (GoldChanged (p_id cp) goldChange)] else [])
         else [])"

text \<open>The roll \<open>rollAction\<close> draws: \<open>rollDice(1)[0]\<close>.\<close>

definition actionRoll :: "Env \<Rightarrow> int" where
  "actionRoll env = rollDice (math_random env) 1 ! 0"

text \<open>
  \<open>rollAction\<close>. Awaited call 0 is the tile query (at most one tile at the position the
  props hold), call 1 the narration (it writes nothing), call 2 the narrator message, and
  the calls of \<open>applyTileEffects\<close> follow.
\<close>

definition rollAction :: "Env \<Rightarrow> Props \<Rightarrow> Controls \<Rightarrow> Store \<Rightarrow> Outcome \<times> Controls \<times> Store" where
  "rollAction env pr c s =
     (if \<not> isMyTurn pr \<or> processing c then (Ignored, c, s)
      else
        let cp = currentPlayer pr;
            roll = actionRoll env
        in if fails_at env = Some 0 then (Failed, c\<lparr>processing := False\<rparr>, s)
           else
             case take 1 (filter (\<lambda>t. tile_pos t = position cp) (db_board_tiles s)) of
               [] \<Rightarrow> (TileNotFound, c\<lparr>processing := False\<rparr>, s)
             | currentTile # _ \<Rightarrow>
                 let calls =
                       [(\<lambda>s. s),
                        blink_chat_messages_create (TileEncounter (p_id cp) roll currentTile)]
                       @ applyTileEffects pr currentTile roll;
                     r = run_calls (fails_at env) 1 calls s
                 in if fst r then (Done, c\<lparr>processing := False\<rparr>, snd r)
                    else (Failed, c\<lparr>processing := False\<rparr>, snd r))"

text \<open>
  \<open>endTurn\<close>. Awaited call 0 writes the next player and turn, call 1 the message. At
  the end of the \<open>try\<close> block the local state is reset and \<open>onGameUpdate\<close> is called
  (outcome \<open>Done\<close>; the board then reloads, see \<open>board_step\<close>).
\<close>

definition endTurn :: "Env \<Rightarrow> Props \<Rightarrow> Controls \<Rightarrow> Store \<Rightarrow> Outcome \<times> Controls \<times> Store" where
  "endTurn env pr c s =
     (if \<not> isMyTurn pr \<or> processing c then (Ignored, c, s)
      else
        let g = game pr;
            nextPlayer = rem_js (current_player g) 4 + 1;
            nextTurn = (if nextPlayer = 1 then current_turn g + 1 else current_turn g);
            calls =
              [blink_games_update (g_id g) (\<lambda>x. x\<lparr>current_player := nextPlayer, current_turn := nextTurn\<rparr>),
               blink_chat_messages_create (TurnEnded nextPlayer)];
            r = run_calls (fails_at env) 0 calls s
        in if fst r then (Done, c\<lparr>actionPhase := False, lastRoll := [], processing := False\<rparr>, snd r)
           else (Failed, c\<lparr>processing := False\<rparr>, snd r))"

text \<open>
  Which buttons the component renders enabled: movement before the action phase, action
  and end of turn in it.
\<close>

definition can_rollMovement :: "Props \<Rightarrow> Controls \<Rightarrow> bool" where
  "can_rollMovement pr c = (isMyTurn pr \<and> \<not> actionPhase c \<and> \<not> rolling c)"

definition can_rollAction :: "Props \<Rightarrow> Controls \<Rightarrow> bool" where
  "can_rollAction pr c = (isMyTurn pr \<and> actionPhase c \<and> \<not> processing c)"

definition can_endTurn :: "Props \<Rightarrow> Controls \<Rightarrow> bool" where
  "can_endTurn pr c = (isMyTurn pr \<and> actionPhase c \<and> \<not> processing c)"

section \<open>GameBoard\<close>

text \<open>
  The board of one user: its props (\<open>gameId\<close> and the user's id), its state
  (\<open>game\<close>, \<open>players\<close> and \<open>currentPlayer\<close>, the last two \<open>null\<close> until
  loaded) and the local state of the TurnControls it renders. \<open>mounted\<close> is false once
  \<open>onExitGame\<close> has sent the user back to the lobby.
\<close>

record Board =
  gameId :: string
  user :: string
  mounted :: bool
  game_st :: "Game option"
  players_st :: "Player list"
  currentPlayer_st :: "Player option"
  controls :: Controls

text \<open>
  \<open>loadGameData\<close>. Awaited call 0 lists the games (the table is kept newest first,
  the query takes 50), call 1 the players (ordered by \<open>player_number\<close>, at most 100).
  The game is set before the players are read. A missing game exits the board. The
  adventure text it may generate afterwards writes no field modelled here. TurnControls
  is rendered only while a game and a current player are loaded, so its local state
  starts afresh otherwise.
\<close>

definition loadGameData :: "nat option \<Rightarrow> Board \<Rightarrow> Store \<Rightarrow> Board" where
  "loadGameData fa b s =
     (if fa = Some 0 then b
      else
        case find (\<lambda>g. g_id g = gameId b) (take 50 (db_games s)) of
          None \<Rightarrow> b\<lparr>mounted := False\<rparr>
        | Some gameInfo \<Rightarrow>
            let b1 = b\<lparr>game_st := Some gameInfo\<rparr>
            in if fa = Some 1 then b1
               else
                 let allPlayers = take 100 (sort_key player_number (db_players s));
                     playersData = filter (\<lambda>p. game_id p = gameId b) allPlayers;
                     userPlayer = find (\<lambda>p. user_id p = user b) playersData
                 in b1\<lparr>players_st := playersData,
                       currentPlayer_st := userPlayer,
                       controls := (if userPlayer = None then initial_controls else controls b)\<rparr>)"

text \<open>The board as \<open>App\<close> mounts it: nothing loaded, then the first \<open>loadGameData\<close>.\<close>

definition mount :: "string \<Rightarrow> string \<Rightarrow> nat option \<Rightarrow> Store \<Rightarrow> Board" where
  "mount gid u fa s =
     loadGameData fa
       \<lparr>gameId = gid, user = u, mounted = True, game_st = None, players_st = [],
        currentPlayer_st = None, controls = initial_controls\<rparr> s"

text \<open>
  The props the board passes to TurnControls. It renders the component only once a game
  and a current player are loaded (and it has not been left).
\<close>

definition board_props :: "Board \<Rightarrow> Props option" where
  "board_props b =
     (case game_st b of
        None \<Rightarrow> None
      | Some g \<Rightarrow>
          (case currentPlayer_st b of
             None \<Rightarrow> None
           | Some p \<Rightarrow>
               if mounted b then Some \<lparr>game = g, currentPlayer = p, players = players_st b\<rparr>
               else None))"

text \<open>
  A handler of TurnControls run on a board: with the props the board passes down, when
  the component is rendered at all. The board's own state is not touched.
\<close>

definition with_controls ::
  "(Props \<Rightarrow> Controls \<Rightarrow> Store \<Rightarrow> Outcome \<times> Controls \<times> Store) \<Rightarrow> Board \<Rightarrow> Store \<Rightarrow> Outcome \<times> Board \<times> Store" where
  "with_controls h b s =
     (case board_props b of
        None \<Rightarrow> (Ignored, b, s)
      | Some pr \<Rightarrow>
          let r = h pr (controls b) s
          in (fst r, b\<lparr>controls := fst (snd r)\<rparr>, snd (snd r)))"

definition board_rollMovement :: "Env \<Rightarrow> Board \<Rightarrow> Store \<Rightarrow> Outcome \<times> Board \<times> Store" where
  "board_rollMovement env b s = with_controls (rollMovement env) b s"

definition board_rollAction :: "Env \<Rightarrow> Board \<Rightarrow> Store \<Rightarrow> Outcome \<times> Board \<times> Store" where
  "board_rollAction env b s = with_controls (rollAction env) b s"

text \<open>\<open>endTurn\<close> calls \<open>onGameUpdate\<close>, which is the board's \<open>loadGameData\<close>.\<close>

definition board_endTurn :: "Env \<Rightarrow> nat option \<Rightarrow> Board \<Rightarrow> Store \<Rightarrow> Outcome \<times> Board \<times> Store" where
  "board_endTurn env fa b s =
     (let r = with_controls (endTurn env) b s
      in if fst r = Done then (Done, loadGameData fa (fst (snd r)) (snd (snd r)), snd (snd r))
         else r)"

section \<open>Creating games and characters\<close>

text \<open>
  \<open>createGame\<close> of the lobby, when its one call goes through: a game starts at turn 1
  with player 1 to move.
\<close>

definition createGame :: "string \<Rightarrow> Store \<Rightarrow> Store" where
  "createGame gid s =
     s\<lparr>db_games := \<lparr>g_id = gid, current_turn = 1, current_player = 1\<rparr> # db_games s\<rparr>"

definition blink_players_create :: "Player \<Rightarrow> Store \<Rightarrow> Store" where
  "blink_players_create p s = s\<lparr>db_players := db_players s @ [p]\<rparr>"

text \<open>
  \<open>createCharacter\<close> of the character screen: the new player takes the next free
  number of the game, up to 4, and starts at position 0 with health 100 and gold 1500.
  Awaited call 0 lists the players, call 1 creates the row, call 2 updates the game's
  player count (a field not modelled). Of the form's checks only the one for an empty
  name is kept; the class and the attribute rolls are not modelled.
\<close>

definition createCharacter ::
  "nat option \<Rightarrow> string \<Rightarrow> string \<Rightarrow> string \<Rightarrow> string \<Rightarrow> Store \<Rightarrow> Outcome \<times> Store" where
  "createCharacter fa new_id gid uid name s =
     (if name = [] then (Ignored, s)
      else if fa = Some 0 then (Failed, s)
      else
        let allPlayers = take 100 (sort_key player_number (db_players s));
            existingPlayers = filter (\<lambda>p. game_id p = gid) allPlayers;
            playerNumber = int (length existingPlayers) + 1
        in if playerNumber > 4 then (Ignored, s)
           else
             let calls =
                   [blink_players_create
                      \<lparr>p_id = new_id, game_id = gid, user_id = uid, player_number = playerNumber,
                       character_name = name, position = 0, health = 100, gold = 1500\<rparr>,
                    (\<lambda>s. s)];
                 r = run_calls fa 1 calls s
             in (if fst r then Done else Failed, snd r))"

section \<open>Sessions\<close>

text \<open>
  The database and the boards of the users looking at it. An event is one thing a user
  does; each handler runs to its end before the next event.
\<close>

record World =
  store :: Store
  boards :: "Board list"

datatype Event =
    CreateGame string
  | CreateCharacter "nat option" string string string string
  | Mount string string "nat option"
  | RollMovement nat Env
  | RollAction nat Env
  | EndTurn nat Env "nat option"

definition on_board :: "nat \<Rightarrow> (Board \<Rightarrow> Store \<Rightarrow> Outcome \<times> Board \<times> Store) \<Rightarrow> World \<Rightarrow> World" where
  "on_board i h w =
     (if i < length (boards w) then
        let r = h (boards w ! i) (store w)
        in \<lparr>store = snd (snd r), boards = (boards w)[i := fst (snd r)]\<rparr>
      else w)"

fun step :: "World \<Rightarrow> Event \<Rightarrow> World" where
  "step w (CreateGame gid) = w\<lparr>store := createGame gid (store w)\<rparr>"
| "step w (CreateCharacter fa new_id gid uid name) =
     w\<lparr>store := snd (createCharacter fa new_id gid uid name (store w))\<rparr>"
| "step w (Mount gid u fa) = w\<lparr>boards := boards w @ [mount gid u fa (store w)]\<rparr>"
| "step w (RollMovement i env) = on_board i (board_rollMovement env) w"
| "step w (RollAction i env) = on_board i (board_rollAction env) w"
| "step w (EndTurn i env fa) = on_board i (board_endTurn env fa) w"

definition run :: "World \<Rightarrow> Event list \<Rightarrow> World" where
  "run w evs = foldl step w evs"

text \<open>The world before anything happened: no game, no player, no board, some tiles.\<close>

definition initial_world :: "Tile list \<Rightarrow> World" where
  "initial_world tiles =
     \<lparr>store = \<lparr>db_games = [], db_players = [], db_board_tiles = tiles, db_chat_messages = []\<rparr>,
      boards = []\<rparr>"

text \<open>Health and gold within their ranges.\<close>

definition in_range :: "Player \<Rightarrow> bool" where
  "in_range p = (0 \<le> health p \<and> health p \<le> 100 \<and> 0 \<le> gold p)"

text \<open>
  The invariant of a session: every player row is within range, and so is the player
  every board holds in its state (the handlers compute what they write from it).
\<close>

definition store_ok :: "Store \<Rightarrow> bool" where
  "store_ok s = list_all in_range (db_players s)"

definition board_ok :: "Board \<Rightarrow> bool" where
  "board_ok b = (case currentPlayer_st b of None \<Rightarrow> True | Some p \<Rightarrow> in_range p)"

definition world_ok :: "World \<Rightarrow> bool" where
  "world_ok w = (store_ok (store w) \<and> list_all board_ok (boards w))"

section \<open>A session to evaluate on\<close>

text \<open>
  Two players in one game. Alice, player 1, is to move, stands on tile 95 and owns 10
  gold; the dice come out as 4 and 3.
\<close>

definition ex_alice :: Player where
  "ex_alice = \<lparr>p_id = ''p1'', game_id = ''g1'', user_id = ''u1'', player_number = 1,
     character_name = ''Alice'', position = 95, health = 100, gold = 10\<rparr>"

definition ex_bob :: Player where
  "ex_bob = \<lparr>p_id = ''p2'', game_id = ''g1'', user_id = ''u2'', player_number = 2,
     character_name = ''Bob'', position = 0, health = 100, gold = 1500\<rparr>"

definition ex_game :: Game where
  "ex_game = \<lparr>g_id = ''g1'', current_turn = 1, current_player = 1\<rparr>"

definition ex_store :: Store where
  "ex_store = \<lparr>db_games = [ex_game], db_players = [ex_alice, ex_bob],
     db_board_tiles = [\<lparr>tile_pos = 2, tile_type = ''monster''\<rparr>, \<lparr>tile_pos = 95, tile_type = ''event''\<rparr>],
     db_chat_messages = []\<rparr>"

definition ex_props :: Props where
  "ex_props = \<lparr>game = ex_game, currentPlayer = ex_alice, players = [ex_alice, ex_bob]\<rparr>"

definition ex_env :: Env where
  "ex_env = \<lparr>math_random = (\<lambda>k. if k = 0 then 1 / 2 else 2 / 5), fails_at = None\<rparr>"

text \<open>The same game with Bob, player 2 of 2, to move.\<close>

definition ex_game_bob :: Game where
  "ex_game_bob = \<lparr>g_id = ''g1'', current_turn = 1, current_player = 2\<rparr>"

definition ex_store_bob :: Store where
  "ex_store_bob = ex_store\<lparr>db_games := [ex_game_bob]\<rparr>"

definition ex_props_bob :: Props where
  "ex_props_bob = \<lparr>game = ex_game_bob, currentPlayer = ex_bob, players = [ex_alice, ex_bob]\<rparr>"

text \<open>The same dice, with awaited call \<open>k\<close> failing.\<close>

definition ex_env_fail :: "nat \<Rightarrow> Env" where
  "ex_env_fail k = ex_env\<lparr>fails_at := Some k\<rparr>"

text \<open>
  Alice's board, as mounted on that store; her movement roll; her action roll after it;
  and a second action roll after that, with a die that comes out as 1.
\<close>

definition ex_board :: Board where
  "ex_board = mount ''g1'' ''u1'' None ex_store"

definition ex_env2 :: Env where
  "ex_env2 = \<lparr>math_random = (\<lambda>_. 0), fails_at = None\<rparr>"

definition ex_moved :: "Outcome \<times> Board \<times> Store" where
  "ex_moved = board_rollMovement ex_env ex_board ex_store"

definition ex_acted :: "Outcome \<times> Board \<times> Store" where
  "ex_acted = board_rollAction ex_env (fst (snd ex_moved)) (snd (snd ex_moved))"

definition ex_acted_again :: "Outcome \<times> Board \<times> Store" where
  "ex_acted_again = board_rollAction ex_env2 (fst (snd ex_acted)) (snd (snd ex_acted))"



text \<open>
  A whole session from nothing: a game is created, Alice joins and opens the board, rolls
  her movement and her action on a board whose start tile is a monster, and ends her turn.
\<close>

definition ex_tiles :: "Tile list" where
  "ex_tiles = [\<lparr>tile_pos = 0, tile_type = ''monster''\<rparr>]"

definition ex_events :: "Event list" where
  "ex_events =
     [CreateGame ''g1'',
      CreateCharacter None ''p1'' ''g1'' ''u1'' ''Alice'',
      Mount ''g1'' ''u1'' None,
      RollMovement 0 ex_env,
      RollAction 0 ex_env,
      EndTurn 0 ex_env None]"

section \<open>The tile effects\<close>

text \<open>
  C6. The changes depend on the tile type and the roll alone. A monster tile pays
  \<open>50 + 5 * roll\<close> gold from roll 15 up and costs 15 health up to roll 8; a treasure
  tile pays \<open>25 + 3 * roll\<close> gold; an event tile pays 30 gold from roll 12 up and costs
  20 gold up to roll 6; property and start tiles change nothing. So monster with 18 gives
  \<open>(0, 140)\<close>, monster with 5 gives \<open>(-15, 0)\<close>, treasure with 10 gives \<open>(0, 55)\<close>
  and event with 3 gives \<open>(0, -20)\<close>.
\<close>

theorem tileChanges_table:
  "tileChanges ''monster'' 18 = (0, 140)
   \<and> tileChanges ''monster'' 5 = (- 15, 0)
   \<and> tileChanges ''treasure'' 10 = (0, 55)
   \<and> tileChanges ''event'' 3 = (0, - 20)
   \<and> (\<forall>roll. tileChanges ''property'' roll = (0, 0))
   \<and> (\<forall>roll. tileChanges ''start'' roll = (0, 0))
   \<and> (\<forall>roll. tileChanges ''monster'' roll =
         (if 15 \<le> roll then (0, 50 + roll * 5) else if roll \<le> 8 then (- 15, 0) else (0, 0)))
   \<and> (\<forall>roll. tileChanges ''treasure'' roll = (0, 25 + roll * 3))
   \<and> (\<forall>roll. tileChanges ''event'' roll =
         (if 12 \<le> roll then (0, 30) else if roll \<le> 6 then (0, - 20) else (0, 0)))"
  by (simp add: tileChanges_def)

section \<open>The dice\<close>

lemma die_range:
  fixes r :: real
  assumes "0 \<le> r" and "r < 1"
  shows "1 \<le> \<lfloor>r * 6\<rfloor> + 1 \<and> \<lfloor>r * 6\<rfloor> + 1 \<le> 6"
  using assms by (auto simp: floor_less_iff le_floor_iff)

text \<open>
  C1. The roll \<open>rollAction\<close> draws and hands to \<open>applyTileEffects\<close> is
  \<open>rollDice(1)[0]\<close>, one six-sided die: whatever \<open>Math.random()\<close> returns, it lies
  between 1 and 6, so no value from 7 to 20 is ever rolled.
\<close>

theorem actionRoll_six_sided:
  assumes "valid_random (math_random env)"
  shows "1 \<le> actionRoll env \<and> actionRoll env \<le> 6 \<and> actionRoll env \<noteq> 20"
proof -
  from assms have "0 \<le> math_random env 0" and "math_random env 0 < 1"
    by (simp_all add: valid_random_def)
  then have "1 \<le> \<lfloor>math_random env 0 * 6\<rfloor> + 1 \<and> \<lfloor>math_random env 0 * 6\<rfloor> + 1 \<le> 6"
    by (rule die_range)
  moreover have "actionRoll env = \<lfloor>math_random env 0 * 6\<rfloor> + 1"
    by (simp add: actionRoll_def rollDice_def)
  ultimately show ?thesis
    by linarith
qed

theorem actionRoll_six_sided_witness:
  "valid_random (math_random \<lparr>math_random = (\<lambda>_. 99 / 100), fails_at = None\<rparr>)
   \<and> actionRoll \<lparr>math_random = (\<lambda>_. 99 / 100), fails_at = None\<rparr> = 6
   \<and> actionRoll \<lparr>math_random = (\<lambda>_. 99 / 100), fails_at = None\<rparr> \<noteq> 20"
proof -
  have v: "valid_random (math_random \<lparr>math_random = (\<lambda>_. 99 / 100), fails_at = None\<rparr>)"
    by (simp add: valid_random_def)
  have "actionRoll \<lparr>math_random = (\<lambda>_. 99 / 100), fails_at = None\<rparr> = 6"
    by (simp add: actionRoll_def rollDice_def)
  with v actionRoll_six_sided [OF v] show ?thesis by simp
qed

section \<open>Facts about the store\<close>

lemmas ex_defs = ex_alice_def ex_bob_def ex_game_def ex_store_def ex_props_def ex_env_def
  ex_game_bob_def ex_store_bob_def ex_props_bob_def ex_env_fail_def

lemma run_calls_fst:
  "fst (run_calls fa k cs s) \<Longrightarrow> snd (run_calls fa k cs s) = fold (\<lambda>c. c) cs s"
  by (induction cs arbitrary: k s) (auto split: if_splits)

lemma find_map_update:
  assumes "\<And>p. p_id (f p) = p_id p"
  shows "find (\<lambda>p. p_id p = j) (map (\<lambda>p. if p_id p = i then f p else p) ps)
         = (if i = j then map_option f (find (\<lambda>p. p_id p = j) ps) else find (\<lambda>p. p_id p = j) ps)"
  by (induction ps) (auto simp: assms)

lemma player_row_update:
  assumes "\<And>p. p_id (f p) = p_id p"
  shows "player_row (blink_players_update i f s) j
         = (if i = j then map_option f (player_row s j) else player_row s j)"
  using find_map_update [of f j i "db_players s", OF assms]
  by (simp add: player_row_def blink_players_update_def)

lemma player_row_message [simp]:
  "player_row (blink_chat_messages_create m s) j = player_row s j"
  by (simp add: player_row_def blink_chat_messages_create_def)

lemma store_fields:
  "db_chat_messages (blink_players_update i f s) = db_chat_messages s"
  "db_games (blink_players_update i f s) = db_games s"
  "db_board_tiles (blink_players_update i f s) = db_board_tiles s"
  "db_chat_messages (blink_games_update i g s) = db_chat_messages s"
  "db_players (blink_games_update i g s) = db_players s"
  "db_board_tiles (blink_games_update i g s) = db_board_tiles s"
  "db_chat_messages (blink_chat_messages_create m s) = db_chat_messages s @ [m]"
  "db_players (blink_chat_messages_create m s) = db_players s"
  "db_games (blink_chat_messages_create m s) = db_games s"
  "db_board_tiles (blink_chat_messages_create m s) = db_board_tiles s"
  by (simp_all add: blink_players_update_def blink_games_update_def blink_chat_messages_create_def)

lemma rem_js_nonneg: "0 \<le> a \<Longrightarrow> rem_js a 100 = a mod 100"
  by (cases "a = 0") (simp_all add: rem_js_def)

lemma rollDice_2:
  "rollDice rnd 2 = [\<lfloor>rnd 0 * 6\<rfloor> + 1, \<lfloor>rnd 1 * 6\<rfloor> + 1]"
  by (simp add: rollDice_def upt_rec)

section \<open>Movement\<close>

lemma rollMovement_position_written:
  assumes turn: "isMyTurn pr" and idle: "\<not> rolling c"
    and ok0: "fails_at env \<noteq> Some 0"
    and row: "player_row s (p_id (currentPlayer pr)) = Some p0"
  shows "map_option position (player_row (snd (snd (rollMovement env pr c s))) (p_id (currentPlayer pr)))
         = Some (rem_js (position (currentPlayer pr) + foldl (+) 0 (rollDice (math_random env) 2)) 100)"
  using assms
  by (simp add: rollMovement_def Let_def player_row_update)

text \<open>
  C3. The board has 100 tiles (the literal in \<open>rollMovement\<close>). When the player to
  move stands on a position from 0 to 99 and the position update goes through,
  \<open>rollMovement\<close> writes \<open>(position + d1 + d2) mod 100\<close> to the player's row, where
  \<open>d1\<close> and \<open>d2\<close>, each from 1 to 6, are the two dice it rolled.
\<close>

theorem rollMovement_newPosition:
  assumes turn: "isMyTurn pr" and idle: "\<not> rolling c"
    and rnd: "valid_random (math_random env)"
    and ok0: "fails_at env \<noteq> Some 0"
    and lo: "0 \<le> position (currentPlayer pr)" and hi: "position (currentPlayer pr) < 100"
    and row: "player_row s (p_id (currentPlayer pr)) = Some p0"
  shows "\<exists>d1 d2. 1 \<le> d1 \<and> d1 \<le> 6 \<and> 1 \<le> d2 \<and> d2 \<le> 6
           \<and> rollDice (math_random env) 2 = [d1, d2]
           \<and> map_option position
                (player_row (snd (snd (rollMovement env pr c s))) (p_id (currentPlayer pr)))
              = Some ((position (currentPlayer pr) + d1 + d2) mod 100)"
proof -
  define d1 where "d1 = \<lfloor>math_random env 0 * 6\<rfloor> + 1"
  define d2 where "d2 = \<lfloor>math_random env 1 * 6\<rfloor> + 1"
  have dice: "rollDice (math_random env) 2 = [d1, d2]"
    by (simp add: rollDice_2 d1_def d2_def)
  have r1: "1 \<le> d1 \<and> d1 \<le> 6"
    unfolding d1_def using rnd by (intro die_range) (simp_all add: valid_random_def)
  have r2: "1 \<le> d2 \<and> d2 \<le> 6"
    unfolding d2_def using rnd by (intro die_range) (simp_all add: valid_random_def)
  have "0 \<le> position (currentPlayer pr) + d1 + d2"
    using lo r1 r2 by linarith
  then have "rem_js (position (currentPlayer pr) + foldl (+) 0 (rollDice (math_random env) 2)) 100
             = (position (currentPlayer pr) + d1 + d2) mod 100"
    by (simp add: dice rem_js_nonneg add.assoc)
  with rollMovement_position_written [OF turn idle ok0 row] dice r1 r2 show ?thesis
    by auto
qed

theorem rollMovement_newPosition_witness:
  "isMyTurn ex_props \<and> \<not> rolling initial_controls \<and> valid_random (math_random ex_env)
   \<and> fails_at ex_env \<noteq> Some 0 \<and> position (currentPlayer ex_props) = 95
   \<and> player_row ex_store (p_id (currentPlayer ex_props)) = Some ex_alice
   \<and> rollDice (math_random ex_env) 2 = [4, 3]
   \<and> map_option position
        (player_row (snd (snd (rollMovement ex_env ex_props initial_controls ex_store))) ''p1'')
      = Some 2"
proof -
  have turn: "isMyTurn ex_props" by (simp add: isMyTurn_def ex_defs)
  have idle: "\<not> rolling initial_controls" by (simp add: initial_controls_def)
  have rnd: "valid_random (math_random ex_env)" by (simp add: valid_random_def ex_defs)
  have ok0: "fails_at ex_env \<noteq> Some 0" by (simp add: ex_defs)
  have pos: "position (currentPlayer ex_props) = 95" by (simp add: ex_defs)
  have row: "player_row ex_store (p_id (currentPlayer ex_props)) = Some ex_alice"
    by (simp add: player_row_def ex_defs)
  have dice: "rollDice (math_random ex_env) 2 = [4, 3]"
    by (simp add: rollDice_2 ex_defs)
  have pid: "p_id (currentPlayer ex_props) = ''p1''" by (simp add: ex_defs)
  from rollMovement_newPosition [OF turn idle rnd ok0 _ _ row]
  have "map_option position
        (player_row (snd (snd (rollMovement ex_env ex_props initial_controls ex_store))) ''p1'')
      = Some 2"
    by (simp add: pos dice pid)
  with turn idle rnd ok0 pos row dice show ?thesis by simp
qed



section \<open>Health and gold stay within range\<close>

lemmas world_defs = run_def initial_world_def createGame_def createCharacter_def mount_def
  loadGameData_def on_board_def board_rollMovement_def board_rollAction_def board_endTurn_def
  with_controls_def board_props_def rollMovement_def rollAction_def endTurn_def applyTileEffects_def
  tileChanges_def actionRoll_def isMyTurn_def initial_controls_def rem_js_def
  blink_players_update_def blink_games_update_def blink_chat_messages_create_def
  blink_players_create_def rollDice_def Let_def

lemma store_ok_update:
  assumes "\<And>p. in_range p \<Longrightarrow> in_range (f p)" and "store_ok s"
  shows "store_ok (blink_players_update i f s)"
  using assms by (auto simp: store_ok_def blink_players_update_def list_all_iff)

lemma store_ok_message: "store_ok s \<Longrightarrow> store_ok (blink_chat_messages_create m s)"
  by (simp add: store_ok_def store_fields)

lemma store_ok_game: "store_ok s \<Longrightarrow> store_ok (blink_games_update i g s)"
  by (simp add: store_ok_def store_fields)


lemma run_calls_store_ok:
  assumes "\<forall>f\<in>set cs. \<forall>t. store_ok t \<longrightarrow> store_ok (f t)" and "store_ok s"
  shows "store_ok (snd (run_calls fa k cs s))"
  using assms by (induction cs arbitrary: k s) auto

lemma rollMovement_ok:
  assumes "in_range (currentPlayer pr)" and "store_ok s"
  shows "store_ok (snd (snd (rollMovement env pr c s)))"
proof (cases "\<not> isMyTurn pr \<or> rolling c")
  case True
  with assms show ?thesis by (simp add: rollMovement_def)
next
  case False
  define calls where "calls =
      [blink_players_update (p_id (currentPlayer pr))
         (\<lambda>p. p\<lparr>position := rem_js (position (currentPlayer pr) + foldl (+) 0 (rollDice (math_random env) 2)) 100\<rparr>),
       blink_chat_messages_create (Movement (p_id (currentPlayer pr)) (rollDice (math_random env) 2)
         (foldl (+) 0 (rollDice (math_random env) 2))
         (rem_js (position (currentPlayer pr) + foldl (+) 0 (rollDice (math_random env) 2)) 100))]
      @ (if position (currentPlayer pr) + foldl (+) 0 (rollDice (math_random env) 2) \<ge> 100
         then [blink_players_update (p_id (currentPlayer pr)) (\<lambda>p. p\<lparr>gold := gold (currentPlayer pr) + 200\<rparr>),
               blink_chat_messages_create (PassedPortal (p_id (currentPlayer pr)))]
         else [])"
  have step: "store_ok (f t)" if "f \<in> set calls" and "store_ok t" for f t
  proof -
    have a: "store_ok (blink_players_update i (\<lambda>p. p\<lparr>position := n\<rparr>) t)" for i n
      using that(2) by (intro store_ok_update) (simp_all add: in_range_def)
    have b: "store_ok (blink_players_update i (\<lambda>p. p\<lparr>gold := gold (currentPlayer pr) + 200\<rparr>) t)" for i
      using that(2) assms(1) by (intro store_ok_update) (simp_all add: in_range_def)
    have c: "store_ok (blink_chat_messages_create m t)" for m
      using that(2) by (rule store_ok_message)
    from that(1) a b c show ?thesis
      by (auto simp: calls_def split: if_splits)
  qed
  have "snd (snd (rollMovement env pr c s)) = snd (run_calls (fails_at env) 0 calls s)"
    using False by (simp add: rollMovement_def Let_def calls_def del: run_calls.simps)
  moreover have "store_ok (snd (run_calls (fails_at env) 0 calls s))"
    using step assms(2) by (intro run_calls_store_ok) auto
  ultimately show ?thesis
    by simp
qed

lemma applyTileEffects_ok:
  assumes "f \<in> set (applyTileEffects pr tile roll)" and "store_ok t"
  shows "store_ok (f t)"
proof -
  have a: "store_ok (blink_players_update i
              (\<lambda>p. p\<lparr>health := max 0 (min 100 h), gold := max 0 g\<rparr>) t)" for i h g
    using assms(2) by (intro store_ok_update) (simp_all add: in_range_def)
  have c: "store_ok (blink_chat_messages_create m t)" for m
    using assms(2) by (rule store_ok_message)
  from assms(1) a c show ?thesis
    by (auto simp: applyTileEffects_def Let_def split: if_splits)
qed

lemma rollAction_ok:
  assumes "store_ok s"
  shows "store_ok (snd (snd (rollAction env pr c s)))"
proof -
  have inv: "store_ok (snd (run_calls fa k
      ([(\<lambda>s. s), blink_chat_messages_create m] @ applyTileEffects pr tile roll) s))" for fa k m tile roll
  proof (intro run_calls_store_ok ballI allI impI assms)
    fix f t
    assume "f \<in> set ([(\<lambda>s. s), blink_chat_messages_create m] @ applyTileEffects pr tile roll)"
      and "store_ok t"
    then show "store_ok (f t)"
      using applyTileEffects_ok [of f pr tile roll t] store_ok_message [of t m] by auto
  qed
  show ?thesis
    using assms inv
    by (simp add: rollAction_def Let_def del: run_calls.simps split: list.splits)
qed

lemma endTurn_ok:
  assumes "store_ok s"
  shows "store_ok (snd (snd (endTurn env pr c s)))"
proof -
  have inv: "store_ok (snd (run_calls fa k
      [blink_games_update i g, blink_chat_messages_create m] s))" for fa k i g m
  proof (intro run_calls_store_ok ballI allI impI assms)
    fix f t
    assume "f \<in> set [blink_games_update i g, blink_chat_messages_create m]" and "store_ok t"
    then show "store_ok (f t)"
      using store_ok_game [of t i g] store_ok_message [of t m] by auto
  qed
  show ?thesis
    using assms inv
    by (simp add: endTurn_def Let_def del: run_calls.simps)
qed


lemma with_controls_ok:
  assumes h: "\<And>pr c s. in_range (currentPlayer pr) \<Longrightarrow> store_ok s \<Longrightarrow> store_ok (snd (snd (h pr c s)))"
    and b: "board_ok b" and s: "store_ok s"
  shows "store_ok (snd (snd (with_controls h b s))) \<and> board_ok (fst (snd (with_controls h b s)))"
proof (cases "board_props b")
  case None
  with b s show ?thesis by (simp add: with_controls_def)
next
  case (Some pr)
  then have "currentPlayer_st b = Some (currentPlayer pr)"
    by (auto simp: board_props_def split: option.splits if_splits)
  with b have "in_range (currentPlayer pr)" by (simp add: board_ok_def)
  then have "store_ok (snd (snd (h pr (controls b) s)))"
    using s by (rule h)
  with Some b show ?thesis
    by (simp add: with_controls_def Let_def board_ok_def)
qed

lemma find_in_set: "find P xs = Some x \<Longrightarrow> x \<in> set xs"
  by (induction xs) (auto split: if_splits)

lemma loadGameData_ok:
  assumes "store_ok s" and "board_ok b"
  shows "board_ok (loadGameData fa b s)"
proof -
  have "in_range p"
    if "find (\<lambda>p. user_id p = user b)
          (filter (\<lambda>p. game_id p = gameId b) (take 100 (sort_key player_number (db_players s)))) = Some p"
    for p
  proof -
    from that have "p \<in> set (filter (\<lambda>p. game_id p = gameId b)
        (take 100 (sort_key player_number (db_players s))))"
      by (rule find_in_set)
    then have "p \<in> set (take 100 (sort_key player_number (db_players s)))"
      by simp
    then have "p \<in> set (db_players s)"
      using set_take_subset [of 100 "sort_key player_number (db_players s)"] by auto
    with assms(1) show ?thesis by (simp add: store_ok_def list_all_iff)
  qed
  with assms(2) show ?thesis
    by (auto simp: loadGameData_def board_ok_def Let_def split: option.splits)
qed

lemma board_endTurn_ok:
  assumes "board_ok b" and "store_ok s"
  shows "store_ok (snd (snd (board_endTurn env fa b s))) \<and> board_ok (fst (snd (board_endTurn env fa b s)))"
proof -
  have "store_ok (snd (snd (with_controls (endTurn env) b s)))
        \<and> board_ok (fst (snd (with_controls (endTurn env) b s)))"
    using assms by (intro with_controls_ok endTurn_ok)
  then show ?thesis
    by (simp add: board_endTurn_def Let_def loadGameData_ok)
qed

lemma on_board_ok:
  assumes h: "\<And>b s. board_ok b \<Longrightarrow> store_ok s \<Longrightarrow>
                store_ok (snd (snd (h b s))) \<and> board_ok (fst (snd (h b s)))"
    and w: "world_ok w"
  shows "world_ok (on_board i h w)"
proof (cases "i < length (boards w)")
  case False
  with w show ?thesis by (simp add: on_board_def)
next
  case True
  from w have s: "store_ok (store w)" and bs: "list_all board_ok (boards w)"
    by (simp_all add: world_ok_def)
  from bs True have "board_ok (boards w ! i)" by (simp add: list_all_length)
  from h [OF this s] bs True show ?thesis
    by (simp add: world_ok_def on_board_def Let_def list_all_length nth_list_update)
qed

lemma createCharacter_ok:
  assumes "store_ok s"
  shows "store_ok (snd (createCharacter fa new_id gid uid name s))"
proof -
  have inv: "store_ok (snd (run_calls fa k
      [blink_players_create
         \<lparr>p_id = i, game_id = g, user_id = u, player_number = n, character_name = nm,
          position = 0, health = 100, gold = 1500\<rparr>, (\<lambda>s. s)] s))" for fa k i g u n nm
    using assms
    by (intro run_calls_store_ok)
       (auto simp: store_ok_def blink_players_create_def in_range_def)
  show ?thesis
    using assms inv
    by (simp add: createCharacter_def Let_def del: run_calls.simps)
qed

lemma step_ok:
  assumes w: "world_ok w"
  shows "world_ok (step w ev)"
proof (cases ev)
  case (CreateGame gid)
  with w show ?thesis by (simp add: world_ok_def store_ok_def createGame_def)
next
  case (CreateCharacter fa new_id gid uid name)
  with w show ?thesis by (simp add: world_ok_def createCharacter_ok)
next
  case (Mount gid u fa)
  have "board_ok (mount gid u fa (store w))"
    unfolding mount_def using w
    by (intro loadGameData_ok) (simp_all add: world_ok_def board_ok_def)
  with Mount w show ?thesis by (simp add: world_ok_def)
next
  case (RollMovement i env)
  have "world_ok (on_board i (board_rollMovement env) w)"
    unfolding board_rollMovement_def
    by (intro on_board_ok with_controls_ok rollMovement_ok w)
  with RollMovement show ?thesis by simp
next
  case (RollAction i env)
  have "world_ok (on_board i (board_rollAction env) w)"
    unfolding board_rollAction_def
    by (intro on_board_ok with_controls_ok rollAction_ok w)
  with RollAction show ?thesis by simp
next
  case (EndTurn i env fa)
  have "world_ok (on_board i (board_endTurn env fa) w)"
    by (intro on_board_ok board_endTurn_ok w)
  with EndTurn show ?thesis by simp
qed

lemma run_ok: "world_ok w \<Longrightarrow> world_ok (run w evs)"
  unfolding run_def by (induction evs arbitrary: w) (simp_all add: step_ok)

lemma initial_world_ok: "world_ok (initial_world tiles)"
  by (simp add: world_ok_def store_ok_def initial_world_def)

text \<open>
  C5. Start with no game, no player and no board. After any sequence of events (games and
  characters created, boards opened, movement rolls, action rolls with their tile
  effects, ends of turn, by any user, with any dice and any failing external call) every
  player row has its health between 0 and 100 and its gold at least 0. Players start
  with health 100 and gold 1500.
\<close>

theorem health_gold_in_range:
  assumes "p \<in> set (db_players (store (run (initial_world tiles) evs)))"
  shows "0 \<le> health p \<and> health p \<le> 100 \<and> 0 \<le> gold p"
  using run_ok [OF initial_world_ok, of tiles evs] assms
  by (simp add: world_ok_def store_ok_def list_all_iff in_range_def)

theorem health_gold_in_range_witness:
  "db_players (store (run (initial_world ex_tiles) ex_events))
   = [\<lparr>p_id = ''p1'', game_id = ''g1'', user_id = ''u1'', player_number = 1,
       character_name = ''Alice'', position = 7, health = 85, gold = 1500\<rparr>]
   \<and> 0 \<le> health \<lparr>p_id = ''p1'', game_id = ''g1'', user_id = ''u1'', player_number = 1,
       character_name = ''Alice'', position = 7, health = 85, gold = 1500\<rparr>
   \<and> health \<lparr>p_id = ''p1'', game_id = ''g1'', user_id = ''u1'', player_number = 1,
       character_name = ''Alice'', position = 7, health = 85, gold = 1500\<rparr> \<le> 100
   \<and> 0 \<le> gold \<lparr>p_id = ''p1'', game_id = ''g1'', user_id = ''u1'', player_number = 1,
       character_name = ''Alice'', position = 7, health = 85, gold = 1500\<rparr>"
proof -
  have r: "db_players (store (run (initial_world ex_tiles) ex_events))
   = [\<lparr>p_id = ''p1'', game_id = ''g1'', user_id = ''u1'', player_number = 1,
       character_name = ''Alice'', position = 7, health = 85, gold = 1500\<rparr>]"
    by (simp add: ex_events_def ex_tiles_def ex_env_def world_defs upt_rec)
  then have "\<lparr>p_id = ''p1'', game_id = ''g1'', user_id = ''u1'', player_number = 1,
       character_name = ''Alice'', position = 7, health = 85, gold = 1500\<rparr>
     \<in> set (db_players (store (run (initial_world ex_tiles) ex_events)))"
    by simp
  from health_gold_in_range [OF this] r show ?thesis by simp
qed

section \<open>What a handler that ran to its end has done\<close>

lemma find_map_update_game:
  assumes "\<And>g. g_id (f g) = g_id g"
  shows "find (\<lambda>g. g_id g = j) (map (\<lambda>g. if g_id g = i then f g else g) gs)
         = (if i = j then map_option f (find (\<lambda>g. g_id g = j) gs) else find (\<lambda>g. g_id g = j) gs)"
  by (induction gs) (auto simp: assms)

lemma game_row_update:
  assumes "\<And>g. g_id (f g) = g_id g"
  shows "game_row (blink_games_update i f s) j
         = (if i = j then map_option f (game_row s j) else game_row s j)"
  using find_map_update_game [of f j i "db_games s", OF assms]
  by (simp add: game_row_def blink_games_update_def)

lemma game_row_message [simp]:
  "game_row (blink_chat_messages_create m s) j = game_row s j"
  by (simp add: game_row_def blink_chat_messages_create_def)

lemma game_row_players [simp]:
  "game_row (blink_players_update i f s) j = game_row s j"
  by (simp add: game_row_def blink_players_update_def)

lemma rollMovement_Done:
  assumes "fst (rollMovement env pr c s) = Done"
  shows "isMyTurn pr" and "\<not> rolling c"
    and "fst (snd (rollMovement env pr c s))
         = c\<lparr>lastRoll := rollDice (math_random env) 2, actionPhase := True, rolling := False\<rparr>"
    and "snd (snd (rollMovement env pr c s))
         = fold (\<lambda>c. c)
            ([blink_players_update (p_id (currentPlayer pr))
               (\<lambda>p. p\<lparr>position := rem_js (position (currentPlayer pr) + foldl (+) 0 (rollDice (math_random env) 2)) 100\<rparr>),
              blink_chat_messages_create (Movement (p_id (currentPlayer pr)) (rollDice (math_random env) 2)
                (foldl (+) 0 (rollDice (math_random env) 2))
                (rem_js (position (currentPlayer pr) + foldl (+) 0 (rollDice (math_random env) 2)) 100))]
             @ (if position (currentPlayer pr) + foldl (+) 0 (rollDice (math_random env) 2) \<ge> 100
                then [blink_players_update (p_id (currentPlayer pr)) (\<lambda>p. p\<lparr>gold := gold (currentPlayer pr) + 200\<rparr>),
                      blink_chat_messages_create (PassedPortal (p_id (currentPlayer pr)))]
                else [])) s"
proof -
  from assms show turn: "isMyTurn pr" and idle: "\<not> rolling c"
    by (auto simp: rollMovement_def split: if_splits)
  from assms turn idle
  show "fst (snd (rollMovement env pr c s))
         = c\<lparr>lastRoll := rollDice (math_random env) 2, actionPhase := True, rolling := False\<rparr>"
    by (simp add: rollMovement_def Let_def del: run_calls.simps split: if_splits)
  from assms turn idle
  show "snd (snd (rollMovement env pr c s)) = fold (\<lambda>c. c) (
            [blink_players_update (p_id (currentPlayer pr))
               (\<lambda>p. p\<lparr>position := rem_js (position (currentPlayer pr) + foldl (+) 0 (rollDice (math_random env) 2)) 100\<rparr>),
              blink_chat_messages_create (Movement (p_id (currentPlayer pr)) (rollDice (math_random env) 2)
                (foldl (+) 0 (rollDice (math_random env) 2))
                (rem_js (position (currentPlayer pr) + foldl (+) 0 (rollDice (math_random env) 2)) 100))]
             @ (if position (currentPlayer pr) + foldl (+) 0 (rollDice (math_random env) 2) \<ge> 100
                then [blink_players_update (p_id (currentPlayer pr)) (\<lambda>p. p\<lparr>gold := gold (currentPlayer pr) + 200\<rparr>),
                      blink_chat_messages_create (PassedPortal (p_id (currentPlayer pr)))]
                else [])) s"
    by (simp add: rollMovement_def Let_def run_calls_fst del: run_calls.simps fold_simps split: if_splits)
qed

lemma rollAction_Done:
  assumes "fst (rollAction env pr c s) = Done"
  shows "isMyTurn pr \<and> \<not> processing c
     \<and> fst (snd (rollAction env pr c s)) = c\<lparr>processing := False\<rparr>
     \<and> (\<exists>tile rest. filter (\<lambda>t. tile_pos t = position (currentPlayer pr)) (db_board_tiles s) = tile # rest
          \<and> snd (snd (rollAction env pr c s))
            = fold (\<lambda>c. c)
                ([(\<lambda>s. s), blink_chat_messages_create (TileEncounter (p_id (currentPlayer pr)) (actionRoll env) tile)]
                 @ applyTileEffects pr tile (actionRoll env)) s)"
proof (cases "filter (\<lambda>t. tile_pos t = position (currentPlayer pr)) (db_board_tiles s)")
  case Nil
  with assms show ?thesis
    by (simp add: rollAction_def Let_def split: if_splits)
next
  case (Cons tile rest)
  with assms show ?thesis
    by (simp add: rollAction_def Let_def run_calls_fst del: run_calls.simps fold_simps
        split: if_splits)
qed

section \<open>End of turn\<close>

text \<open>
  C2. \<open>endTurn\<close> of the player to move, once its update goes through, sets
  \<open>current_player\<close> to \<open>(current_player % 4) + 1\<close>, whatever the number of players
  in the game, and adds 1 to \<open>current_turn\<close> exactly when the new \<open>current_player\<close>
  is 1. In a game of two players, after player 2 the pointer is therefore 3, which is no
  player's number.
\<close>

theorem endTurn_next_player:
  assumes turn: "isMyTurn pr" and idle: "\<not> processing c"
    and ok0: "fails_at env \<noteq> Some 0"
    and row: "game_row s (g_id (game pr)) = Some g0"
  shows "map_option current_player (game_row (snd (snd (endTurn env pr c s))) (g_id (game pr)))
         = Some (rem_js (current_player (game pr)) 4 + 1)
       \<and> map_option current_turn (game_row (snd (snd (endTurn env pr c s))) (g_id (game pr)))
         = Some (if rem_js (current_player (game pr)) 4 + 1 = 1
                 then current_turn (game pr) + 1 else current_turn (game pr))"
  using assms
  by (simp add: endTurn_def Let_def game_row_update)

theorem endTurn_next_player_witness:
  "isMyTurn ex_props_bob \<and> \<not> processing initial_controls \<and> fails_at ex_env \<noteq> Some 0
   \<and> game_row ex_store_bob ''g1'' = Some ex_game_bob
   \<and> map player_number (db_players ex_store_bob) = [1, 2]
   \<and> current_player ex_game_bob = 2
   \<and> map_option current_player
        (game_row (snd (snd (endTurn ex_env ex_props_bob initial_controls ex_store_bob))) ''g1'')
      = Some 3
   \<and> map player_number
        (db_players (snd (snd (endTurn ex_env ex_props_bob initial_controls ex_store_bob)))) = [1, 2]"
proof -
  have turn: "isMyTurn ex_props_bob" by (simp add: isMyTurn_def ex_defs)
  have idle: "\<not> processing initial_controls" by (simp add: initial_controls_def)
  have ok0: "fails_at ex_env \<noteq> Some 0" by (simp add: ex_defs)
  have row: "game_row ex_store_bob (g_id (game ex_props_bob)) = Some ex_game_bob"
    by (simp add: game_row_def ex_defs)
  have vals: "g_id (game ex_props_bob) = ''g1''" "current_player (game ex_props_bob) = 2"
    "current_player ex_game_bob = 2" "map player_number (db_players ex_store_bob) = [1, 2]"
    by (simp_all add: ex_defs)
  have pl: "map player_number
        (db_players (snd (snd (endTurn ex_env ex_props_bob initial_controls ex_store_bob)))) = [1, 2]"
    by (simp add: endTurn_def Let_def isMyTurn_def initial_controls_def store_fields ex_defs)
  from endTurn_next_player [OF turn idle ok0 row]
  have "map_option current_player
        (game_row (snd (snd (endTurn ex_env ex_props_bob initial_controls ex_store_bob))) ''g1'')
      = Some 3"
    by (simp add: vals rem_js_def)
  with turn idle ok0 row vals pl show ?thesis by simp
qed

section \<open>Failures\<close>

text \<open>
  C8, as stated, fails: when the movement message cannot be created, \<open>rollMovement\<close>
  ends in its \<open>catch\<close> block and yet the new position stays written.
\<close>

theorem rollMovement_failure_keeps_position:
  "fst (rollMovement (ex_env_fail 1) ex_props initial_controls ex_store) = Failed
   \<and> map_option position (player_row ex_store ''p1'') = Some 95
   \<and> map_option position
        (player_row (snd (snd (rollMovement (ex_env_fail 1) ex_props initial_controls ex_store))) ''p1'')
      = Some 2
   \<and> \<not> same_state ex_store (snd (snd (rollMovement (ex_env_fail 1) ex_props initial_controls ex_store)))"
  by (simp add: rollMovement_def Let_def isMyTurn_def initial_controls_def rollDice_2 rem_js_def
      player_row_def same_state_def blink_players_update_def ex_defs)

lemma same_state_refl: "same_state s s"
  by (simp add: same_state_def)

lemma same_state_message: "same_state s t \<Longrightarrow> same_state s (blink_chat_messages_create m t)"
  by (simp add: same_state_def store_fields)

text \<open>
  C8, amended. A handler that returns at its guard, that finds no tile, or whose failing
  call comes no later than its first write to a player or game row (call 0 of
  \<open>rollMovement\<close> and \<open>endTurn\<close>, calls 0 to 3 of \<open>rollAction\<close>) leaves every
  player and game row as it was. Nothing undoes a write that a later failure follows.
\<close>

theorem no_write_no_change:
  "(fst (rollMovement env pr c s) = Ignored \<or> fails_at env = Some 0
      \<longrightarrow> snd (snd (rollMovement env pr c s)) = s)
   \<and> (fst (rollAction env pr c s) = Ignored \<or> fst (rollAction env pr c s) = TileNotFound
       \<or> fails_at env = Some 0 \<or> fails_at env = Some 1 \<or> fails_at env = Some 2
       \<or> fails_at env = Some 3
      \<longrightarrow> same_state s (snd (snd (rollAction env pr c s))))
   \<and> (fst (endTurn env pr c s) = Ignored \<or> fails_at env = Some 0
      \<longrightarrow> snd (snd (endTurn env pr c s)) = s)"
proof (intro conjI impI)
  assume "fst (rollMovement env pr c s) = Ignored \<or> fails_at env = Some 0"
  then show "snd (snd (rollMovement env pr c s)) = s"
    by (auto simp: rollMovement_def Let_def split: if_splits)
next
  assume "fst (endTurn env pr c s) = Ignored \<or> fails_at env = Some 0"
  then show "snd (snd (endTurn env pr c s)) = s"
    by (auto simp: endTurn_def Let_def split: if_splits)
next
  assume a: "fst (rollAction env pr c s) = Ignored \<or> fst (rollAction env pr c s) = TileNotFound
       \<or> fails_at env = Some 0 \<or> fails_at env = Some 1 \<or> fails_at env = Some 2
       \<or> fails_at env = Some 3"
  show "same_state s (snd (snd (rollAction env pr c s)))"
  proof (cases "\<not> isMyTurn pr \<or> processing c \<or> fails_at env = Some 0")
    case True
    then show ?thesis by (auto simp: rollAction_def Let_def same_state_refl)
  next
    case guard: False
    show ?thesis
    proof (cases "filter (\<lambda>t. tile_pos t = position (currentPlayer pr)) (db_board_tiles s)")
      case Nil
      with guard show ?thesis by (simp add: rollAction_def Let_def same_state_refl)
    next
      case (Cons tile rest)
      with guard a have k: "fails_at env = Some 1 \<or> fails_at env = Some 2 \<or> fails_at env = Some 3"
        by (auto simp: rollAction_def Let_def split: if_splits)
      have "same_state s (snd (run_calls (fails_at env) 1
              ([(\<lambda>s. s), blink_chat_messages_create (TileEncounter (p_id (currentPlayer pr)) (actionRoll env) tile)]
               @ applyTileEffects pr tile (actionRoll env)) s))"
        using k
        by (cases "applyTileEffects pr tile (actionRoll env)")
           (auto simp: same_state_refl same_state_message)
      with guard Cons show ?thesis
        by (simp add: rollAction_def Let_def del: run_calls.simps)
    qed
  qed
qed

theorem no_write_no_change_witness:
  "fails_at (ex_env_fail 0) = Some 0
   \<and> fst (rollMovement (ex_env_fail 0) ex_props initial_controls ex_store) = Failed
   \<and> snd (snd (rollMovement (ex_env_fail 0) ex_props initial_controls ex_store)) = ex_store
   \<and> fst (endTurn (ex_env_fail 0) ex_props initial_controls ex_store) = Failed
   \<and> snd (snd (endTurn (ex_env_fail 0) ex_props initial_controls ex_store)) = ex_store"
proof -
  have f: "fails_at (ex_env_fail 0) = Some 0" by (simp add: ex_defs)
  have m: "fst (rollMovement (ex_env_fail 0) ex_props initial_controls ex_store) = Failed"
    by (simp add: rollMovement_def Let_def isMyTurn_def initial_controls_def ex_defs)
  have e: "fst (endTurn (ex_env_fail 0) ex_props initial_controls ex_store) = Failed"
    by (simp add: endTurn_def Let_def isMyTurn_def initial_controls_def ex_defs)
  from no_write_no_change [of "ex_env_fail 0" ex_props initial_controls ex_store] f m e
  show ?thesis by simp
qed

section \<open>A turn on a board\<close>

lemma run_calls_None: "run_calls None k cs s = (True, fold (\<lambda>c. c) cs s)"
  by (induction cs arbitrary: k s) auto

lemma with_controls_props:
  assumes "board_props b = Some pr"
  shows "with_controls h b s
         = (fst (h pr (controls b) s), b\<lparr>controls := fst (snd (h pr (controls b) s))\<rparr>,
            snd (snd (h pr (controls b) s)))"
  using assms by (simp add: with_controls_def Let_def)

lemma board_props_controls [simp]: "board_props (b\<lparr>controls := c\<rparr>) = board_props b"
  by (simp add: board_props_def split: option.splits)

lemma applyTileEffects_tiles:
  "db_board_tiles (fold (\<lambda>c. c) (applyTileEffects pr tile roll) t) = db_board_tiles t"
  by (simp add: applyTileEffects_def Let_def store_fields)

lemma applyTileEffects_messages:
  "\<exists>ms. db_chat_messages (fold (\<lambda>c. c) (applyTileEffects pr tile roll) t) = db_chat_messages t @ ms"
  by (simp add: applyTileEffects_def Let_def store_fields)

lemma applyTileEffects_gold:
  assumes "snd (tileChanges (tile_type tile) roll) \<noteq> 0"
    and "player_row t (p_id (currentPlayer pr)) = Some q"
  shows "map_option gold (player_row (fold (\<lambda>c. c) (applyTileEffects pr tile roll) t) (p_id (currentPlayer pr)))
         = Some (max 0 (gold (currentPlayer pr) + snd (tileChanges (tile_type tile) roll)))"
  using assms by (simp add: applyTileEffects_def Let_def player_row_update)

text \<open>The example board and what the example rolls make of it.\<close>

lemma ex_board_eq:
  "ex_board = \<lparr>gameId = ''g1'', user = ''u1'', mounted = True, game_st = Some ex_game,
      players_st = [ex_alice, ex_bob], currentPlayer_st = Some ex_alice, controls = initial_controls\<rparr>"
  by (simp add: ex_board_def mount_def loadGameData_def Let_def ex_defs)

lemma ex_board_props: "board_props ex_board = Some ex_props"
  by (simp add: ex_board_eq board_props_def ex_props_def)

lemma ex_moved_eq:
  "ex_moved = (Done,
      ex_board\<lparr>controls := \<lparr>rolling = False, lastRoll = [4, 3], actionPhase = True, processing = False\<rparr>\<rparr>,
      ex_store\<lparr>db_players := [ex_alice\<lparr>position := 2, gold := 210\<rparr>, ex_bob],
               db_chat_messages := [Movement ''p1'' [4, 3] 7 2, PassedPortal ''p1'']\<rparr>)"
  by (simp add: ex_moved_def board_rollMovement_def with_controls_def ex_board_props Let_def)
     (simp add: ex_board_eq rollMovement_def Let_def isMyTurn_def initial_controls_def rollDice_2 rem_js_def
        blink_players_update_def blink_chat_messages_create_def ex_defs)

lemma ex_acted_eq:
  "ex_acted = (Done,
      ex_board\<lparr>controls := \<lparr>rolling = False, lastRoll = [4, 3], actionPhase = True, processing = False\<rparr>\<rparr>,
      ex_store\<lparr>db_players := [ex_alice\<lparr>position := 2, gold := 0\<rparr>, ex_bob],
               db_chat_messages := [Movement ''p1'' [4, 3] 7 2, PassedPortal ''p1'',
                  TileEncounter ''p1'' 4 \<lparr>tile_pos = 95, tile_type = ''event''\<rparr>,
                  GoldChanged ''p1'' (- 20)]\<rparr>)"
  by (simp add: ex_acted_def ex_moved_eq board_rollAction_def with_controls_def Let_def)
     (simp add: ex_board_eq board_props_def rollAction_def applyTileEffects_def tileChanges_def
        actionRoll_def rollDice_def Let_def isMyTurn_def initial_controls_def
        blink_players_update_def blink_chat_messages_create_def ex_defs)

lemma ex_acted_again_eq:
  "ex_acted_again = (Done,
      ex_board\<lparr>controls := \<lparr>rolling = False, lastRoll = [4, 3], actionPhase = True, processing = False\<rparr>\<rparr>,
      ex_store\<lparr>db_players := [ex_alice\<lparr>position := 2, gold := 0\<rparr>, ex_bob],
               db_chat_messages := [Movement ''p1'' [4, 3] 7 2, PassedPortal ''p1'',
                  TileEncounter ''p1'' 4 \<lparr>tile_pos = 95, tile_type = ''event''\<rparr>,
                  GoldChanged ''p1'' (- 20),
                  TileEncounter ''p1'' 1 \<lparr>tile_pos = 95, tile_type = ''event''\<rparr>,
                  GoldChanged ''p1'' (- 20)]\<rparr>)"
  by (simp add: ex_acted_again_def ex_acted_eq board_rollAction_def with_controls_def Let_def)
     (simp add: ex_board_eq board_props_def rollAction_def applyTileEffects_def tileChanges_def
        actionRoll_def rollDice_def Let_def isMyTurn_def initial_controls_def ex_env2_def
        blink_players_update_def blink_chat_messages_create_def ex_defs)

text \<open>
  C10. Once a movement roll has run to its end the turn is in its action phase and the
  End Turn button is enabled. Pressing it then, with no action roll in between, ends the
  turn: the handler runs to its end, the pointer moves on, and the only message added is
  the end of the turn.
\<close>

theorem endTurn_without_action:
  assumes pr: "board_props b = Some pr"
    and can: "can_rollMovement pr (controls b)" and idle: "\<not> processing (controls b)"
    and move: "board_rollMovement env1 b s = (Done, b1, s1)"
    and ok: "fails_at env2 = None"
    and row: "game_row s (g_id (game pr)) = Some g0"
  shows "board_props b1 = Some pr \<and> can_endTurn pr (controls b1)
       \<and> fst (board_endTurn env2 fa b1 s1) = Done
       \<and> map_option current_player
            (game_row (snd (snd (board_endTurn env2 fa b1 s1))) (g_id (game pr)))
          = Some (rem_js (current_player (game pr)) 4 + 1)
       \<and> db_chat_messages (snd (snd (board_endTurn env2 fa b1 s1)))
          = db_chat_messages s1 @ [TurnEnded (rem_js (current_player (game pr)) 4 + 1)]"
proof -
  from move pr have d: "fst (rollMovement env1 pr (controls b) s) = Done"
    and b1: "b1 = b\<lparr>controls := fst (snd (rollMovement env1 pr (controls b) s))\<rparr>"
    and s1: "s1 = snd (snd (rollMovement env1 pr (controls b) s))"
    by (simp_all add: board_rollMovement_def with_controls_props)
  note m = rollMovement_Done [OF d]
  have p1: "board_props b1 = Some pr" by (simp add: b1 pr)
  have c1: "controls b1 = (controls b)\<lparr>lastRoll := rollDice (math_random env1) 2,
              actionPhase := True, rolling := False\<rparr>"
    by (simp add: b1 m(3))
  have can': "can_endTurn pr (controls b1)"
    using m(1) idle by (simp add: can_endTurn_def c1)
  have g1: "game_row s1 (g_id (game pr)) = Some g0"
    unfolding s1 m(4) using row by simp
  have e: "endTurn env2 pr (controls b1) s1
           = (Done, (controls b1)\<lparr>actionPhase := False, lastRoll := [], processing := False\<rparr>,
              blink_chat_messages_create (TurnEnded (rem_js (current_player (game pr)) 4 + 1))
                (blink_games_update (g_id (game pr))
                   (\<lambda>x. x\<lparr>current_player := rem_js (current_player (game pr)) 4 + 1,
                          current_turn := (if rem_js (current_player (game pr)) 4 + 1 = 1
                                          then current_turn (game pr) + 1 else current_turn (game pr))\<rparr>)
                   s1))"
    using m(1) idle by (simp add: endTurn_def Let_def ok c1)
  have "fst (board_endTurn env2 fa b1 s1) = Done"
    and s2: "snd (snd (board_endTurn env2 fa b1 s1))
       = blink_chat_messages_create (TurnEnded (rem_js (current_player (game pr)) 4 + 1))
                (blink_games_update (g_id (game pr))
                   (\<lambda>x. x\<lparr>current_player := rem_js (current_player (game pr)) 4 + 1,
                          current_turn := (if rem_js (current_player (game pr)) 4 + 1 = 1
                                          then current_turn (game pr) + 1 else current_turn (game pr))\<rparr>)
                   s1)"
    by (simp_all add: board_endTurn_def with_controls_props [OF p1] e Let_def)
  moreover have "map_option current_player
            (game_row (snd (snd (board_endTurn env2 fa b1 s1))) (g_id (game pr)))
          = Some (rem_js (current_player (game pr)) 4 + 1)"
    unfolding s2 using g1 by (simp add: game_row_update)
  moreover have "db_chat_messages (snd (snd (board_endTurn env2 fa b1 s1)))
          = db_chat_messages s1 @ [TurnEnded (rem_js (current_player (game pr)) 4 + 1)]"
    unfolding s2 by (simp add: store_fields)
  ultimately show ?thesis using p1 can' by simp
qed

theorem endTurn_without_action_witness:
  "board_props ex_board = Some ex_props
   \<and> can_rollMovement ex_props (controls ex_board) \<and> \<not> processing (controls ex_board)
   \<and> fst ex_moved = Done \<and> fails_at ex_env2 = None
   \<and> game_row ex_store ''g1'' = Some ex_game
   \<and> can_endTurn ex_props (controls (fst (snd ex_moved)))
   \<and> fst (board_endTurn ex_env2 None (fst (snd ex_moved)) (snd (snd ex_moved))) = Done
   \<and> map_option current_player
        (game_row (snd (snd (board_endTurn ex_env2 None (fst (snd ex_moved)) (snd (snd ex_moved))))) ''g1'')
      = Some 2
   \<and> db_chat_messages (snd (snd (board_endTurn ex_env2 None (fst (snd ex_moved)) (snd (snd ex_moved)))))
      = [Movement ''p1'' [4, 3] 7 2, PassedPortal ''p1'', TurnEnded 2]"
proof -
  have can: "can_rollMovement ex_props (controls ex_board)"
    by (simp add: can_rollMovement_def isMyTurn_def ex_board_eq initial_controls_def ex_defs)
  have idle: "\<not> processing (controls ex_board)"
    by (simp add: ex_board_eq initial_controls_def)
  have move: "board_rollMovement ex_env ex_board ex_store = (Done, fst (snd ex_moved), snd (snd ex_moved))"
    by (simp add: ex_moved_eq ex_moved_def [symmetric])
  have ok: "fails_at ex_env2 = None" by (simp add: ex_env2_def)
  have row: "game_row ex_store (g_id (game ex_props)) = Some ex_game"
    by (simp add: game_row_def ex_defs)
  have vals: "g_id (game ex_props) = ''g1''" "rem_js (current_player (game ex_props)) 4 + 1 = 2"
    "db_chat_messages (snd (snd ex_moved)) = [Movement ''p1'' [4, 3] 7 2, PassedPortal ''p1'']"
    "fst ex_moved = Done"
    by (simp_all add: ex_moved_eq rem_js_def ex_defs)
  from endTurn_without_action [OF ex_board_props can idle move ok row, of None]
    ex_board_props can idle ok row vals
  show ?thesis by simp
qed

text \<open>
  C7, as stated, fails: after Alice's action roll a second one runs to its end as well,
  with a new roll, and writes its own messages. No handler has an error for a wrong phase.
\<close>

theorem second_rollAction_runs:
  "fst ex_acted = Done \<and> fst ex_acted_again = Done \<and> fst ex_acted_again \<noteq> Failed
   \<and> db_chat_messages (snd (snd ex_acted_again))
      = db_chat_messages (snd (snd ex_acted))
        @ [TileEncounter ''p1'' 1 \<lparr>tile_pos = 95, tile_type = ''event''\<rparr>, GoldChanged ''p1'' (- 20)]"
  by (simp add: ex_acted_eq ex_acted_again_eq)

text \<open>
  C7, amended. \<open>rollAction\<close> is guarded by the turn and by the \<open>processing\<close> flag
  alone. After an action roll that ran to its end, the board passes the same props, the
  Take Action button is enabled as before, and a second action roll in the same turn,
  when none of its calls fails, runs to its end again: it draws its own roll and adds its
  own narrator message.
\<close>

theorem rollAction_again:
  assumes pr: "board_props b = Some pr"
    and can: "can_rollAction pr (controls b)"
    and first: "board_rollAction env1 b s = (Done, b1, s1)"
    and ok: "fails_at env2 = None"
  shows "board_props b1 = Some pr \<and> can_rollAction pr (controls b1)
       \<and> fst (board_rollAction env2 b1 s1) = Done
       \<and> (\<exists>tile ms. db_chat_messages (snd (snd (board_rollAction env2 b1 s1)))
             = db_chat_messages s1
               @ TileEncounter (p_id (currentPlayer pr)) (actionRoll env2) tile # ms)"
proof -
  from first pr have d: "fst (rollAction env1 pr (controls b) s) = Done"
    and b1: "b1 = b\<lparr>controls := fst (snd (rollAction env1 pr (controls b) s))\<rparr>"
    and s1: "s1 = snd (snd (rollAction env1 pr (controls b) s))"
    by (simp_all add: board_rollAction_def with_controls_props)
  from rollAction_Done [OF d] obtain tile rest where
    turn: "isMyTurn pr" and c1: "controls b1 = (controls b)\<lparr>processing := False\<rparr>"
    and tl: "filter (\<lambda>t. tile_pos t = position (currentPlayer pr)) (db_board_tiles s) = tile # rest"
    and s1': "s1 = fold (\<lambda>c. c)
                ([(\<lambda>s. s), blink_chat_messages_create (TileEncounter (p_id (currentPlayer pr)) (actionRoll env1) tile)]
                 @ applyTileEffects pr tile (actionRoll env1)) s"
    by (auto simp: b1 s1)
  have p1: "board_props b1 = Some pr" by (simp add: b1 pr)
  have t1: "db_board_tiles s1 = db_board_tiles s"
    by (simp add: s1' applyTileEffects_tiles store_fields)
  have e: "rollAction env2 pr (controls b1) s1
           = (Done, (controls b1)\<lparr>processing := False\<rparr>,
              fold (\<lambda>c. c) (applyTileEffects pr tile (actionRoll env2))
                (blink_chat_messages_create (TileEncounter (p_id (currentPlayer pr)) (actionRoll env2) tile) s1))"
    using turn by (simp add: rollAction_def Let_def ok c1 t1 tl run_calls_None)
  obtain ms where ms: "db_chat_messages (fold (\<lambda>c. c) (applyTileEffects pr tile (actionRoll env2))
                (blink_chat_messages_create (TileEncounter (p_id (currentPlayer pr)) (actionRoll env2) tile) s1))
        = db_chat_messages (blink_chat_messages_create (TileEncounter (p_id (currentPlayer pr)) (actionRoll env2) tile) s1) @ ms"
    using applyTileEffects_messages by blast
  have "fst (board_rollAction env2 b1 s1) = Done"
    by (simp add: board_rollAction_def with_controls_props [OF p1] e)
  moreover have "db_chat_messages (snd (snd (board_rollAction env2 b1 s1)))
             = db_chat_messages s1 @ TileEncounter (p_id (currentPlayer pr)) (actionRoll env2) tile # ms"
    by (simp add: board_rollAction_def with_controls_props [OF p1] e ms store_fields)
  moreover have "can_rollAction pr (controls b1)"
    using can by (simp add: can_rollAction_def c1)
  ultimately show ?thesis using p1 by auto
qed

theorem rollAction_again_witness:
  "board_props (fst (snd ex_moved)) = Some ex_props
   \<and> can_rollAction ex_props (controls (fst (snd ex_moved)))
   \<and> can_rollAction ex_props (controls (fst (snd ex_acted)))
   \<and> board_rollAction ex_env (fst (snd ex_moved)) (snd (snd ex_moved)) = ex_acted
   \<and> fst ex_acted = Done \<and> fails_at ex_env2 = None
   \<and> actionRoll ex_env2 = 1
   \<and> fst (board_rollAction ex_env2 (fst (snd ex_acted)) (snd (snd ex_acted))) = Done
   \<and> (\<exists>tile ms. db_chat_messages (snd (snd (board_rollAction ex_env2 (fst (snd ex_acted)) (snd (snd ex_acted)))))
         = db_chat_messages (snd (snd ex_acted)) @ TileEncounter ''p1'' 1 tile # ms)"
proof -
  have pr: "board_props (fst (snd ex_moved)) = Some ex_props"
    by (simp add: ex_moved_eq ex_board_props)
  have first: "board_rollAction ex_env (fst (snd ex_moved)) (snd (snd ex_moved))
               = (Done, fst (snd ex_acted), snd (snd ex_acted))"
    by (simp add: ex_acted_eq ex_acted_def [symmetric])
  have can: "can_rollAction ex_props (controls (fst (snd ex_moved)))"
    by (simp add: ex_moved_eq can_rollAction_def isMyTurn_def ex_defs)
  have ok: "fails_at ex_env2 = None" by (simp add: ex_env2_def)
  have vals: "p_id (currentPlayer ex_props) = ''p1''" "actionRoll ex_env2 = 1"
    "fst ex_acted = Done"
    by (simp_all add: ex_acted_eq actionRoll_def rollDice_def ex_env2_def ex_defs)
  from rollAction_again [OF pr can first ok] pr can ok vals
  show ?thesis by (simp add: ex_acted_def [symmetric])
qed

text \<open>
  C9, as stated, fails where the clamp binds: Alice owns 10 gold, passes the start (210
  written) and then loses 20 on an event tile; the gold written is 0, not \<open>10 - 20\<close>.
\<close>

theorem bonus_overwritten_clamped:
  "fst ex_moved = Done
   \<and> map_option gold (player_row ex_store ''p1'') = Some 10
   \<and> map_option gold (player_row (snd (snd ex_moved)) ''p1'') = Some 210
   \<and> fst ex_acted = Done
   \<and> snd (tileChanges ''event'' (actionRoll ex_env)) = - 20
   \<and> map_option gold (player_row (snd (snd ex_acted)) ''p1'') = Some 0
   \<and> map_option gold (player_row (snd (snd ex_acted)) ''p1'')
      \<noteq> Some (10 + snd (tileChanges ''event'' (actionRoll ex_env)))"
  by (simp add: ex_moved_eq ex_acted_eq player_row_def tileChanges_def actionRoll_def
      rollDice_def ex_defs)

text \<open>
  C9, amended. A movement roll that passes the start writes the gold of the props plus
  200. The action roll of the same turn still sees the props of before the movement, so
  when its gold change is not zero it writes \<open>max 0 (gold + change)\<close> computed from the
  gold of before the bonus: the bonus is gone.
\<close>

theorem bonus_overwritten:
  assumes pr: "board_props b = Some pr"
    and move: "board_rollMovement env1 b s = (Done, b1, s1)"
    and wrap: "100 \<le> position (currentPlayer pr) + foldl (+) 0 (rollDice (math_random env1) 2)"
    and row: "player_row s (p_id (currentPlayer pr)) = Some p0"
    and sync: "gold p0 = gold (currentPlayer pr)"
    and act: "board_rollAction env2 b1 s1 = (Done, b2, s2)"
    and tile: "filter (\<lambda>t. tile_pos t = position (currentPlayer pr)) (db_board_tiles s) = tile # rest"
    and delta: "snd (tileChanges (tile_type tile) (actionRoll env2)) \<noteq> 0"
  shows "map_option gold (player_row s1 (p_id (currentPlayer pr))) = Some (gold p0 + 200)
       \<and> map_option gold (player_row s2 (p_id (currentPlayer pr)))
          = Some (max 0 (gold p0 + snd (tileChanges (tile_type tile) (actionRoll env2))))"
proof -
  from move pr have d: "fst (rollMovement env1 pr (controls b) s) = Done"
    and b1: "b1 = b\<lparr>controls := fst (snd (rollMovement env1 pr (controls b) s))\<rparr>"
    and s1: "s1 = snd (snd (rollMovement env1 pr (controls b) s))"
    by (simp_all add: board_rollMovement_def with_controls_props)
  note m = rollMovement_Done [OF d]
  have p1: "board_props b1 = Some pr" by (simp add: b1 pr)
  have r1: "player_row s1 (p_id (currentPlayer pr))
            = Some (p0\<lparr>position := rem_js (position (currentPlayer pr) + foldl (+) 0 (rollDice (math_random env1) 2)) 100,
                       gold := gold (currentPlayer pr) + 200\<rparr>)"
    unfolding s1 m(4) using row wrap by (simp add: player_row_update)
  have t1: "db_board_tiles s1 = db_board_tiles s"
    unfolding s1 m(4) by (simp add: store_fields)
  from act p1 have d2: "fst (rollAction env2 pr (controls b1) s1) = Done"
    and s2: "s2 = snd (snd (rollAction env2 pr (controls b1) s1))"
    by (simp_all add: board_rollAction_def with_controls_props)
  from rollAction_Done [OF d2] tile t1
  have s2': "s2 = fold (\<lambda>c. c)
                ([(\<lambda>s. s), blink_chat_messages_create (TileEncounter (p_id (currentPlayer pr)) (actionRoll env2) tile)]
                 @ applyTileEffects pr tile (actionRoll env2)) s1"
    by (auto simp: s2)
  have "map_option gold (player_row s2 (p_id (currentPlayer pr)))
          = Some (max 0 (gold (currentPlayer pr) + snd (tileChanges (tile_type tile) (actionRoll env2))))"
    unfolding s2' using applyTileEffects_gold [OF delta, of _ pr] r1 by simp
  with r1 sync show ?thesis by simp
qed

theorem bonus_overwritten_witness:
  "board_props ex_board = Some ex_props
   \<and> fst ex_moved = Done \<and> (100::int) \<le> 95 + 7
   \<and> player_row ex_store ''p1'' = Some ex_alice \<and> gold ex_alice = 10
   \<and> fst ex_acted = Done
   \<and> filter (\<lambda>t. tile_pos t = 95) (db_board_tiles ex_store) = [\<lparr>tile_pos = 95, tile_type = ''event''\<rparr>]
   \<and> snd (tileChanges ''event'' (actionRoll ex_env)) = - 20
   \<and> map_option gold (player_row (snd (snd ex_moved)) ''p1'') = Some 210
   \<and> map_option gold (player_row (snd (snd ex_acted)) ''p1'') = Some 0"
proof -
  have move: "board_rollMovement ex_env ex_board ex_store = (Done, fst (snd ex_moved), snd (snd ex_moved))"
    by (simp add: ex_moved_eq ex_moved_def [symmetric])
  have wrap: "100 \<le> position (currentPlayer ex_props) + foldl (+) 0 (rollDice (math_random ex_env) 2)"
    by (simp add: rollDice_2 ex_defs)
  have row: "player_row ex_store (p_id (currentPlayer ex_props)) = Some ex_alice"
    by (simp add: player_row_def ex_defs)
  have sync: "gold ex_alice = gold (currentPlayer ex_props)" by (simp add: ex_defs)
  have act: "board_rollAction ex_env (fst (snd ex_moved)) (snd (snd ex_moved))
             = (Done, fst (snd ex_acted), snd (snd ex_acted))"
    by (simp add: ex_acted_eq ex_acted_def [symmetric])
  have tile: "filter (\<lambda>t. tile_pos t = position (currentPlayer ex_props)) (db_board_tiles ex_store)
              = \<lparr>tile_pos = 95, tile_type = ''event''\<rparr> # []"
    by (simp add: ex_defs)
  have delta: "snd (tileChanges (tile_type \<lparr>tile_pos = 95, tile_type = ''event''\<rparr>) (actionRoll ex_env)) \<noteq> 0"
    by (simp add: tileChanges_def actionRoll_def rollDice_def ex_defs)
  have vals: "p_id (currentPlayer ex_props) = ''p1''" "gold ex_alice = 10"
    "position (currentPlayer ex_props) = 95"
    "snd (tileChanges ''event'' (actionRoll ex_env)) = - 20"
    "fst ex_moved = Done" "fst ex_acted = Done"
    by (simp_all add: ex_moved_eq ex_acted_eq tileChanges_def actionRoll_def rollDice_def ex_defs)
  from bonus_overwritten [OF ex_board_props move wrap row sync act tile delta]
    ex_board_props row tile vals
  show ?thesis by simp
qed

section \<open>A movement roll made again\<close>




end
